theory Spec2Isabelle
  imports Main
begin

section \<open>Python values, objects and the store\<close>

text \<open>
  The payload builders of \<^verbatim>\<open>urbanairship/push/payload.py\<close> take arbitrary Python
  values and return dictionaries and lists. Dictionaries and lists are mutable objects
  with an identity, and one builder (\<^verbatim>\<open>in_app\<close>) writes through one of its
  arguments, so they live in a store and values refer to them by address. Immutable
  values (None, booleans, integers, strings, tuples, function objects) are carried
  directly. A string is a list of 8-bit characters; floats and user-defined classes are
  not modelled. Dictionary keys are strings, as in every document the module builds.
  The semantics is that of Python 3 in the versions the module was written for, where
  \<^verbatim>\<open>string_type\<close> is \<^verbatim>\<open>str\<close> and \<^verbatim>\<open>collections.Sequence\<close> is the abstract base class of
  sequences.
\<close>

type_synonym addr = nat

datatype pyval =
    PNone
  | PBool bool
  | PInt int
  | PStr string
  | PTuple "pyval list"
  | PFunc string
  | PRef addr

datatype pyobj =
    ODict "(string \<times> pyval) list"
  | OList "pyval list"

type_synonym heap = "pyobj list"

datatype error = ValueError | TypeError | AttributeError

definition heap_get :: "heap \<Rightarrow> addr \<Rightarrow> pyobj option" where
  "heap_get h a = (if a < length h then Some (h ! a) else None)"

text \<open>\<^verbatim>\<open>d[k] = v\<close> on the entries of a dictionary: an existing key keeps its place,
  a new key goes to the end.\<close>

fun dict_set :: "(string \<times> pyval) list \<Rightarrow> string \<Rightarrow> pyval \<Rightarrow> (string \<times> pyval) list" where
  "dict_set [] k v = [(k, v)]"
| "dict_set ((k', v') # d) k v =
     (if k' = k then (k, v) # d else (k', v') # dict_set d k v)"

subsection \<open>Computations: a store is threaded, an exception ends the call\<close>

type_synonym 'a py = "heap \<Rightarrow> (error + 'a) \<times> heap"

definition ret :: "'a \<Rightarrow> 'a py" where
  "ret x = (\<lambda>h. (Inr x, h))"

definition raise :: "error \<Rightarrow> 'a py" where
  "raise e = (\<lambda>h. (Inl e, h))"

definition pbind :: "'a py \<Rightarrow> ('a \<Rightarrow> 'b py) \<Rightarrow> 'b py" where
  "pbind m f = (\<lambda>h. case m h of (Inl e, h') \<Rightarrow> (Inl e, h') | (Inr x, h') \<Rightarrow> f x h')"

definition pthen :: "unit py \<Rightarrow> 'b py \<Rightarrow> 'b py" where
  "pthen m n = pbind m (\<lambda>_. n)"

text \<open>A block of statements, run in order.\<close>

fun pseq :: "unit py list \<Rightarrow> unit py" where
  "pseq [] = ret ()"
| "pseq (s # ss) = pthen s (pseq ss)"

text \<open>\<^verbatim>\<open>if c: body\<close>, where the test may read the store.\<close>

definition pwhen :: "(heap \<Rightarrow> bool) \<Rightarrow> unit py \<Rightarrow> unit py" where
  "pwhen c body = (\<lambda>h. if c h then body h else (Inr (), h))"

text \<open>\<^verbatim>\<open>for x in xs: body\<close> over the items of a sequence.\<close>

fun for_each :: "('a \<Rightarrow> unit py) \<Rightarrow> 'a list \<Rightarrow> unit py" where
  "for_each body [] = ret ()"
| "for_each body (x # xs) = pthen (body x) (for_each body xs)"

text \<open>Allocation puts the new object at the next free address.\<close>

definition new_obj :: "pyobj \<Rightarrow> pyval py" where
  "new_obj ob = (\<lambda>h. (Inr (PRef (length h)), h @ [ob]))"

text \<open>\<^verbatim>\<open>target[k] = v\<close> with a string key: only a dictionary supports it; a list wants
  an integer index and every other value modelled here has no item assignment, which
  Python reports as a TypeError.\<close>

definition setitem :: "pyval \<Rightarrow> string \<Rightarrow> pyval \<Rightarrow> unit py" where
  "setitem target k v = (\<lambda>h.
     case target of
       PRef a \<Rightarrow>
         (case heap_get h a of
            Some (ODict d) \<Rightarrow> (Inr (), h[a := ODict (dict_set d k v)])
          | _ \<Rightarrow> (Inl TypeError, h))
     | _ \<Rightarrow> (Inl TypeError, h))"

subsection \<open>Tests on values\<close>

text \<open>\<^verbatim>\<open>isinstance(v, string_type)\<close>\<close>

fun is_string_type :: "pyval \<Rightarrow> bool" where
  "is_string_type (PStr _) = True"
| "is_string_type _ = False"

text \<open>\<^verbatim>\<open>isinstance(v, int)\<close>: \<^verbatim>\<open>bool\<close> is a subclass of \<^verbatim>\<open>int\<close>.\<close>

fun is_int :: "pyval \<Rightarrow> bool" where
  "is_int (PInt _) = True"
| "is_int (PBool _) = True"
| "is_int _ = False"

text \<open>\<^verbatim>\<open>isinstance(v, dict)\<close> and \<^verbatim>\<open>isinstance(v, list)\<close> look at the object a
  reference points to.\<close>

definition is_dict :: "heap \<Rightarrow> pyval \<Rightarrow> bool" where
  "is_dict h v = (case v of
       PRef a \<Rightarrow> (case heap_get h a of Some (ODict _) \<Rightarrow> True | _ \<Rightarrow> False)
     | _ \<Rightarrow> False)"

definition is_list :: "heap \<Rightarrow> pyval \<Rightarrow> bool" where
  "is_list h v = (case v of
       PRef a \<Rightarrow> (case heap_get h a of Some (OList _) \<Rightarrow> True | _ \<Rightarrow> False)
     | _ \<Rightarrow> False)"

text \<open>\<^verbatim>\<open>isinstance(v, collections.Sequence)\<close>: strings, tuples and lists.\<close>

definition is_sequence :: "heap \<Rightarrow> pyval \<Rightarrow> bool" where
  "is_sequence h v = (case v of
       PStr _ \<Rightarrow> True
     | PTuple _ \<Rightarrow> True
     | _ \<Rightarrow> is_list h v)"

text \<open>The truth value Python gives a value in \<^verbatim>\<open>if v\<close>.\<close>

definition truthy :: "heap \<Rightarrow> pyval \<Rightarrow> bool" where
  "truthy h v = (case v of
       PNone \<Rightarrow> False
     | PBool b \<Rightarrow> b
     | PInt i \<Rightarrow> i \<noteq> 0
     | PStr s \<Rightarrow> s \<noteq> []
     | PTuple vs \<Rightarrow> vs \<noteq> []
     | PFunc _ \<Rightarrow> True
     | PRef a \<Rightarrow>
         (case heap_get h a of
            Some (ODict d) \<Rightarrow> d \<noteq> []
          | Some (OList vs) \<Rightarrow> vs \<noteq> []
          | None \<Rightarrow> True))"

text \<open>\<^verbatim>\<open>s.startswith(p)\<close>\<close>

definition startswith :: "string \<Rightarrow> string \<Rightarrow> bool" where
  "startswith s p = (take (length p) s = p)"

text \<open>\<^verbatim>\<open>v in (s1, ..., sn)\<close> for string literals: a value equals a string only when it is
  that string.\<close>

definition in_strs :: "pyval \<Rightarrow> string list \<Rightarrow> bool" where
  "in_strs v ss = (v \<in> set (map PStr ss))"

text \<open>\<^verbatim>\<open>raise E("... '%s'" % v)\<close>: the message is formatted before the exception is
  raised, and \<^verbatim>\<open>%\<close> takes a tuple operand as the argument list, so a tuple that does
  not have exactly one item is a TypeError from the formatting itself.\<close>

definition raise_formatted :: "error \<Rightarrow> pyval \<Rightarrow> 'a py" where
  "raise_formatted e v =
     (case v of
        PTuple vs \<Rightarrow> (if length vs = 1 then raise e else raise TypeError)
      | _ \<Rightarrow> raise e)"

text \<open>\<^verbatim>\<open>d.items()\<close>: only a dictionary has the method among the values modelled
  here; on anything else the attribute lookup fails.\<close>

definition items :: "pyval \<Rightarrow> (string \<times> pyval) list py" where
  "items v = (\<lambda>h.
     case v of
       PRef a \<Rightarrow>
         (case heap_get h a of
            Some (ODict d) \<Rightarrow> (Inr d, h)
          | _ \<Rightarrow> (Inl AttributeError, h))
     | _ \<Rightarrow> (Inl AttributeError, h))"

text \<open>The items a \<^verbatim>\<open>for\<close> loop or a comprehension draws from a value: the elements
  of a list or tuple, the characters of a string, the keys of a dictionary; other values
  are not iterable.\<close>

definition iter_items :: "pyval \<Rightarrow> pyval list py" where
  "iter_items v = (\<lambda>h.
     case v of
       PStr s \<Rightarrow> (Inr (map (\<lambda>c. PStr [c]) s), h)
     | PTuple vs \<Rightarrow> (Inr vs, h)
     | PRef a \<Rightarrow>
         (case heap_get h a of
            Some (OList vs) \<Rightarrow> (Inr vs, h)
          | Some (ODict d) \<Rightarrow> (Inr (map (\<lambda>(k, _). PStr k) d), h)
          | None \<Rightarrow> (Inl TypeError, h))
     | _ \<Rightarrow> (Inl TypeError, h))"

text \<open>\<^verbatim>\<open>{key: val for key, val in iter(payload.items()) if val is not None}\<close>\<close>

definition without_none :: "pyval \<Rightarrow> pyval py" where
  "without_none payload =
     pbind (items payload) (\<lambda>kvs.
       new_obj (ODict (foldl (\<lambda>d (key, val). dict_set d key val) []
                         (filter (\<lambda>(key, val). val \<noteq> PNone) kvs))))"

text \<open>\<^verbatim>\<open>VALID_AUTOBADGE = re.compile(r'^(auto|[+-][\d]+)$')\<close>, used with
  \<^verbatim>\<open>match\<close>: \<^verbatim>\<open>$\<close> also matches just before a newline that ends the string.\<close>

definition is_digit :: "char \<Rightarrow> bool" where
  "is_digit c = (c \<in> set ''0123456789'')"

definition VALID_AUTOBADGE :: "string \<Rightarrow> bool" where
  "VALID_AUTOBADGE s =
     (let t = (if s \<noteq> [] \<and> last s = CHR 0x0A then butlast s else s)
      in t = ''auto'' \<or>
         (case t of
            [] \<Rightarrow> False
          | c # ds \<Rightarrow> (c = CHR ''+'' \<or> c = CHR ''-'') \<and> ds \<noteq> [] \<and> list_all is_digit ds))"

text \<open>\<^verbatim>\<open>v in {10, 5}\<close> hashes \<^verbatim>\<open>v\<close> first: a dictionary or list, or a tuple holding
  one, is unhashable and the test itself raises a TypeError. Of the hashable values
  modelled here only the integers 10 and 5 are equal to a member.\<close>

fun hashable :: "heap \<Rightarrow> pyval \<Rightarrow> bool" where
  "hashable h (PRef a) = (heap_get h a = None)"
| "hashable h (PTuple vs) = list_all (hashable h) vs"
| "hashable h _ = True"

definition in_int_set :: "pyval \<Rightarrow> int list \<Rightarrow> bool py" where
  "in_int_set v members = (\<lambda>h.
     if hashable h v then (Inr (v \<in> set (map PInt members)), h)
     else (Inl TypeError, h))"

section \<open>The builders\<close>

text \<open>Each builder is the source function of the same name, statement by statement, with
  the semantics of Python 3. A keyword argument that the caller omits has the default of
  the signature (\<^verbatim>\<open>None\<close>, or \<^verbatim>\<open>False\<close> for \<^verbatim>\<open>content_available\<close>).\<close>

definition notification ::
  "pyval \<Rightarrow> pyval \<Rightarrow> pyval \<Rightarrow> pyval \<Rightarrow> pyval \<Rightarrow> pyval \<Rightarrow> pyval \<Rightarrow> pyval \<Rightarrow> pyval \<Rightarrow> pyval \<Rightarrow> pyval py" where
  "notification alert ios android amazon web wns actions interactive in_app open_platform =
     pbind (new_obj (ODict [])) (\<lambda>payload. pthen (pseq [
       pwhen (\<lambda>_. alert \<noteq> PNone) (setitem payload ''alert'' alert),
       pwhen (\<lambda>_. actions \<noteq> PNone) (setitem payload ''actions'' actions),
       pwhen (\<lambda>_. ios \<noteq> PNone) (setitem payload ''ios'' ios),
       pwhen (\<lambda>_. android \<noteq> PNone) (setitem payload ''android'' android),
       pwhen (\<lambda>_. amazon \<noteq> PNone) (setitem payload ''amazon'' amazon),
       pwhen (\<lambda>_. web \<noteq> PNone) (setitem payload ''web'' web),
       pwhen (\<lambda>_. wns \<noteq> PNone) (setitem payload ''wns'' wns),
       pwhen (\<lambda>_. interactive \<noteq> PNone) (setitem payload ''interactive'' interactive),
       pwhen (\<lambda>_. in_app \<noteq> PNone) (setitem payload ''in_app'' in_app),
       pwhen (\<lambda>_. open_platform \<noteq> PNone)
         (pbind (items open_platform)
            (for_each (\<lambda>(platform, overrides).
               setitem payload (''open::'' @ platform) overrides))),
       pwhen (\<lambda>h. \<not> truthy h payload) (raise ValueError)])
     (ret payload))"

definition ios ::
  "pyval \<Rightarrow> pyval \<Rightarrow> pyval \<Rightarrow> pyval \<Rightarrow> pyval \<Rightarrow> pyval \<Rightarrow> pyval \<Rightarrow> pyval \<Rightarrow> pyval \<Rightarrow> pyval \<Rightarrow> pyval \<Rightarrow> pyval \<Rightarrow> pyval \<Rightarrow> pyval \<Rightarrow> pyval py" where
  "ios alert badge sound content_available extra expiry interactive category title
       mutable_content subtitle media_attachment priority collapse_id =
     pbind (new_obj (ODict [])) (\<lambda>payload. pthen (pseq [
       pwhen (\<lambda>_. alert \<noteq> PNone) (pseq [
         pwhen (\<lambda>h. \<not> (is_string_type alert \<or> is_dict h alert)) (raise ValueError),
         setitem payload ''alert'' alert]),
       pwhen (\<lambda>_. badge \<noteq> PNone) (pseq [
         pwhen (\<lambda>_. \<not> (is_string_type badge \<or> is_int badge)) (raise ValueError),
         pwhen (\<lambda>_. case badge of PStr s \<Rightarrow> \<not> VALID_AUTOBADGE s | _ \<Rightarrow> False)
           (raise ValueError),
         setitem payload ''badge'' badge]),
       pwhen (\<lambda>_. sound \<noteq> PNone) (setitem payload ''sound'' sound),
       pwhen (\<lambda>h. truthy h content_available)
         (setitem payload ''content-available'' (PInt 1)),
       pwhen (\<lambda>_. extra \<noteq> PNone) (setitem payload ''extra'' extra),
       pwhen (\<lambda>_. expiry \<noteq> PNone) (pseq [
         pwhen (\<lambda>_. \<not> (is_string_type expiry \<or> is_int expiry)) (raise ValueError),
         setitem payload ''expiry'' expiry]),
       pwhen (\<lambda>_. interactive \<noteq> PNone) (setitem payload ''interactive'' interactive),
       pwhen (\<lambda>_. category \<noteq> PNone) (pseq [
         pwhen (\<lambda>_. \<not> is_string_type category) (raise ValueError),
         setitem payload ''category'' category]),
       pwhen (\<lambda>_. title \<noteq> PNone) (pseq [
         pwhen (\<lambda>_. \<not> is_string_type title) (raise ValueError),
         setitem payload ''title'' title]),
       pwhen (\<lambda>_. mutable_content \<noteq> PNone)
         (setitem payload ''mutable_content'' mutable_content),
       pwhen (\<lambda>_. subtitle \<noteq> PNone) (setitem payload ''subtitle'' subtitle),
       pwhen (\<lambda>_. media_attachment \<noteq> PNone)
         (setitem payload ''media_attachment'' media_attachment),
       pwhen (\<lambda>_. priority \<noteq> PNone) (pseq [
         pbind (in_int_set priority [10, 5]) (\<lambda>found.
           pwhen (\<lambda>_. \<not> found) (raise ValueError)),
         setitem payload ''priority'' priority]),
       pwhen (\<lambda>_. collapse_id \<noteq> PNone) (pseq [
         pwhen (\<lambda>_. \<not> is_string_type collapse_id) (raise ValueError),
         setitem payload ''collapse_id'' collapse_id])])
     (ret payload))"

text \<open>\<^verbatim>\<open>sum(1 for x in (alert, toast, tile, badge) if x)\<close> counts the arguments that
  are true, not those that are not None.\<close>

definition wns_payload :: "pyval \<Rightarrow> pyval \<Rightarrow> pyval \<Rightarrow> pyval \<Rightarrow> pyval py" where
  "wns_payload alert toast tile badge =
     pthen
       (pwhen (\<lambda>h. length (filter (truthy h) [alert, toast, tile, badge]) \<noteq> 1)
          (raise ValueError))
       (pbind (new_obj (ODict [])) (\<lambda>payload. pthen (pseq [
          pwhen (\<lambda>_. alert \<noteq> PNone) (setitem payload ''alert'' alert),
          pwhen (\<lambda>_. toast \<noteq> PNone) (setitem payload ''toast'' toast),
          pwhen (\<lambda>_. tile \<noteq> PNone) (setitem payload ''tile'' tile),
          pwhen (\<lambda>_. badge \<noteq> PNone) (setitem payload ''badge'' badge)])
        (ret payload)))"

text \<open>The last assignment of \<^verbatim>\<open>in_app\<close> is \<^verbatim>\<open>extra['extra'] = extra\<close>: its target is the
  argument, not the payload.\<close>

definition in_app ::
  "pyval \<Rightarrow> pyval \<Rightarrow> pyval \<Rightarrow> pyval \<Rightarrow> pyval \<Rightarrow> pyval \<Rightarrow> pyval \<Rightarrow> pyval py" where
  "in_app alert display_type expiry display actions interactive extra =
     pbind (new_obj (ODict [])) (\<lambda>payload. pthen (pseq [
       setitem payload ''alert'' alert,
       setitem payload ''display_type'' display_type,
       pwhen (\<lambda>_. expiry \<noteq> PNone) (setitem payload ''expiry'' expiry),
       pwhen (\<lambda>_. display \<noteq> PNone) (setitem payload ''display'' display),
       pwhen (\<lambda>_. actions \<noteq> PNone) (setitem payload ''actions'' actions),
       pwhen (\<lambda>_. interactive \<noteq> PNone) (setitem payload ''interactive'' interactive),
       pwhen (\<lambda>_. extra \<noteq> PNone) (setitem extra ''extra'' extra)])
     (ret payload))"

text \<open>The body of the loop of \<^verbatim>\<open>device_types\<close>, for one tag \<^verbatim>\<open>t\<close>.\<close>

definition device_type_check :: "pyval \<Rightarrow> unit py" where
  "device_type_check t =
     (let is_open = (case t of PStr s \<Rightarrow> startswith s ''open::'' | _ \<Rightarrow> False)
      in pwhen (\<lambda>_. \<not> in_strs t [''ios'', ''android'', ''amazon'', ''wns'', ''web''] \<and> \<not> is_open)
           (raise_formatted ValueError t))"

definition device_types :: "pyval list \<Rightarrow> pyval py" where
  "device_types types =
     (if length types = 1 \<and> types ! 0 = PStr ''all'' then ret (PStr ''all'')
      else pthen (for_each device_type_check types) (new_obj (OList types)))"

definition options :: "pyval \<Rightarrow> pyval py" where
  "options expiry =
     pbind (new_obj (ODict [])) (\<lambda>payload. pthen (pseq [
       pwhen (\<lambda>_. expiry \<noteq> PNone) (setitem payload ''expiry'' expiry),
       pwhen (\<lambda>_. \<not> (is_string_type expiry \<or> is_int expiry)) (raise ValueError)])
     (ret payload))"

text \<open>The body of the loop of \<^verbatim>\<open>campaigns\<close>, for one item \<^verbatim>\<open>c\<close>: the length test is
  reached only by a string.\<close>

definition category_check :: "pyval \<Rightarrow> unit py" where
  "category_check c =
     (case c of
        PStr s \<Rightarrow> pwhen (\<lambda>_. length s = 0 \<or> length s > 64) (raise_formatted ValueError c)
      | _ \<Rightarrow> raise_formatted ValueError c)"

text \<open>In \<^verbatim>\<open>campaigns\<close> the name \<^verbatim>\<open>categories\<close> is bound again when a string is
  wrapped into a list; the loop and the copy use the new binding.\<close>

definition campaigns :: "pyval \<Rightarrow> pyval py" where
  "campaigns categories =
     pbind (new_obj (ODict [])) (\<lambda>payload. pthen
       (pwhen (\<lambda>_. categories \<noteq> PNone)
          (pthen (pwhen (\<lambda>h. \<not> is_sequence h categories) (raise TypeError))
          (pthen (pwhen (\<lambda>h. is_list h categories)
                    (pbind (iter_items categories) (\<lambda>vs.
                       pwhen (\<lambda>_. vs = [] \<or> length vs > 10) (raise ValueError))))
          (pbind (if is_string_type categories then new_obj (OList [categories])
                  else ret categories) (\<lambda>categories.
           pthen (pbind (iter_items categories) (for_each category_check))
          (pbind (pbind (iter_items categories) (\<lambda>vs. new_obj (OList vs)))
             (setitem payload ''categories'')))))))
     (ret payload))"

text \<open>In \<^verbatim>\<open>content\<close> the third entry of the literal is \<^verbatim>\<open>'options': options\<close>, where
  \<^verbatim>\<open>options\<close> is the module's function of that name; the parameter \<^verbatim>\<open>body\<close> is not
  used.\<close>

definition content :: "pyval \<Rightarrow> pyval \<Rightarrow> pyval \<Rightarrow> pyval py" where
  "content title subtitle body =
     pbind (new_obj (ODict [(''title'', title), (''subtitle'', subtitle),
                            (''options'', PFunc ''options'')]))
       without_none"

section \<open>Predicates of the statements and of the proofs\<close>

text \<open>The tags that the loop of \<^verbatim>\<open>device_types\<close> lets pass.\<close>

definition known_tag :: "string \<Rightarrow> bool" where
  "known_tag t \<longleftrightarrow>
     t \<in> {''ios'', ''android'', ''amazon'', ''wns'', ''web''} \<or> (\<exists>r. t = ''open::'' @ r)"

text \<open>The arguments that the loop of \<^verbatim>\<open>device_types\<close> lets pass: a string that is one of
  the five platform names or begins with \<^verbatim>\<open>open::\<close>.\<close>

definition known_device_type :: "pyval \<Rightarrow> bool" where
  "known_device_type t \<longleftrightarrow>
     (\<exists>s. t = PStr s \<and>
          (s \<in> {''ios'', ''android'', ''amazon'', ''wns'', ''web''} \<or> (\<exists>r. s = ''open::'' @ r)))"


text \<open>The exception that \<^verbatim>\<open>raise ValueError("... '%s'" % c)\<close> ends with: the ValueError,
  unless \<^verbatim>\<open>c\<close> is a tuple that the formatting rejects.\<close>

definition format_error :: "pyval \<Rightarrow> error" where
  "format_error c =
     (case c of
        PTuple ts \<Rightarrow> (if length ts = 1 then ValueError else TypeError)
      | _ \<Rightarrow> ValueError)"

text \<open>The entries of a payload after \<^verbatim>\<open>if v is not None: payload[k] = v\<close>, and after the
  loop of \<^verbatim>\<open>notification\<close> over the items of \<^verbatim>\<open>open_platform\<close>.\<close>

definition put_field ::
  "(string \<times> pyval) list \<Rightarrow> string \<Rightarrow> pyval \<Rightarrow> (string \<times> pyval) list" where
  "put_field d k v = (if v \<noteq> PNone then dict_set d k v else d)"

definition put_open ::
  "(string \<times> pyval) list \<Rightarrow> (string \<times> pyval) list \<Rightarrow> (string \<times> pyval) list" where
  "put_open d entries =
     foldl (\<lambda>d (platform, overrides). dict_set d (''open::'' @ platform) overrides) d entries"

text \<open>An assertion on the store: the object at \<^verbatim>\<open>p\<close> is a dictionary whose fields with a
  name in \<^verbatim>\<open>K\<close> are as \<^verbatim>\<open>f\<close> says. A triple says that a statement which starts in a
  store satisfying \<^verbatim>\<open>P\<close> and ends without an exception ends in a store satisfying
  \<^verbatim>\<open>Q\<close>.\<close>

definition fields_are ::
  "addr \<Rightarrow> string set \<Rightarrow> (string \<Rightarrow> pyval option) \<Rightarrow> heap \<Rightarrow> bool" where
  "fields_are p K f h \<longleftrightarrow>
     (\<exists>d. heap_get h p = Some (ODict d) \<and> (\<forall>k\<in>K. map_of d k = f k))"

definition triple :: "(heap \<Rightarrow> bool) \<Rightarrow> unit py \<Rightarrow> (heap \<Rightarrow> bool) \<Rightarrow> bool" where
  "triple P m Q \<longleftrightarrow> (\<forall>h h'. P h \<longrightarrow> m h = (Inr (), h') \<longrightarrow> Q h')"

section \<open>Properties\<close>

subsection \<open>The store and the sequencing of statements\<close>

lemmas seq_defs = ret_def raise_def pbind_def pthen_def new_obj_def

lemmas py_defs = seq_defs pwhen_def setitem_def heap_get_def items_def iter_items_def
  is_dict_def is_list_def is_sequence_def truthy_def

lemma heap_get_append:
  "heap_get (h @ [x]) a = (if a = length h then Some x else heap_get h a)"
  by (auto simp add: heap_get_def nth_append)

lemma heap_get_update:
  "heap_get (h[a := x]) b = (if a = b \<and> b < length h then Some x else heap_get h b)"
  by (auto simp add: heap_get_def)

lemma heap_get_less: "heap_get h a = Some ob \<Longrightarrow> a < length h"
  by (simp add: heap_get_def split: if_splits)

lemma setitem_dict:
  "heap_get h a = Some (ODict d) \<Longrightarrow>
   setitem (PRef a) k v h = (Inr (), h[a := ODict (dict_set d k v)])"
  by (simp add: setitem_def)

lemma pwhen_const: "pwhen (\<lambda>_. c) body = (if c then body else ret ())"
  by (auto simp add: pwhen_def ret_def)

lemma setitem_new:
  "setitem (PRef (length h)) k v (h @ ODict d # rest)
     = (Inr (), h @ ODict (dict_set d k v) # rest)"
  by (simp add: setitem_def heap_get_def list_update_append)

lemma dict_set_not_Nil [simp]: "dict_set d k v \<noteq> []"
  by (induction d k v rule: dict_set.induct) simp_all

lemma map_of_dict_set: "map_of (dict_set d k v) = (map_of d)(k \<mapsto> v)"
  by (induction d k v rule: dict_set.induct) auto

lemma pseq_Cons_apply:
  "pseq (s # ss) h =
     (case s h of (Inl e, h') \<Rightarrow> (Inl e, h') | (Inr u, h') \<Rightarrow> pseq ss h')"
  by (simp add: pthen_def pbind_def)

lemma pseq_Nil_apply: "pseq [] h = (Inr (), h)"
  by (simp add: ret_def)

lemma pthen_apply:
  "pthen m n h = (case m h of (Inl e, h') \<Rightarrow> (Inl e, h') | (Inr u, h') \<Rightarrow> n h')"
  by (simp add: pthen_def pbind_def)

lemma pbind_new: "pbind (new_obj ob) f h = f (PRef (length h)) (h @ [ob])"
  by (simp add: pbind_def new_obj_def)

lemmas run_simps = pseq_Cons_apply pseq_Nil_apply pthen_apply pbind_new

lemma pthen_retE:
  assumes "pthen m (ret x) h = (Inr r, h')"
  obtains "m h = (Inr (), h')" and "r = x"
  using assms
  by (auto simp add: pthen_def pbind_def ret_def split: prod.splits sum.splits)

lemma store_field:
  "pwhen (\<lambda>_. v \<noteq> PNone) (setitem (PRef (length h)) k v) (h @ ODict d # rest)
     = (Inr (), h @ ODict (put_field d k v) # rest)"
  by (simp add: pwhen_def setitem_new put_field_def)

lemma store_field_new:
  "pwhen (\<lambda>_. v \<noteq> PNone) (setitem (PRef (length h)) k v) (h @ [ODict d])
     = (Inr (), h @ [ODict (put_field d k v)])"
  by (rule store_field)

lemma raise_when:
  "pwhen c (raise e) h = (if c h then (Inl e, h) else (Inr (), h))"
  by (simp add: pwhen_def raise_def)

lemma format_error_eq:
  "format_error c = (if \<exists>ts. c = PTuple ts \<and> length ts \<noteq> 1 then TypeError else ValueError)"
  by (cases c) (simp_all add: format_error_def)

lemma startswith_iff: "startswith s p \<longleftrightarrow> (\<exists>r. s = p @ r)"
  unfolding startswith_def
  by (metis append_eq_conv_conj append_take_drop_id)

subsection \<open>content and in\_app\<close>

text \<open>C1 (fields present exactly for the supplied inputs) fails on two builders.
  \<^verbatim>\<open>content(body='hello')\<close> returns \<^verbatim>\<open>{'options': <function options>}\<close>: the body is
  not in the document and a field that was not supplied is. \<^verbatim>\<open>in_app('hi', 'banner',
  extra={'k': 'v'})\<close> returns \<^verbatim>\<open>{'alert': 'hi', 'display_type': 'banner'}\<close>, with no
  \<^verbatim>\<open>extra\<close> field.\<close>

theorem content_body_and_in_app_extra_not_emitted:
  "content PNone PNone (PStr ''hello'') [] =
     (Inr (PRef 1),
      [ODict [(''title'', PNone), (''subtitle'', PNone), (''options'', PFunc ''options'')],
       ODict [(''options'', PFunc ''options'')]])
   \<and> in_app (PStr ''hi'') (PStr ''banner'') PNone PNone PNone PNone (PRef 0)
        [ODict [(''k'', PStr ''v'')]] =
     (Inr (PRef 1),
      [ODict [(''k'', PStr ''v''), (''extra'', PRef 0)],
       ODict [(''alert'', PStr ''hi''), (''display_type'', PStr ''banner'')]])"
  by (simp add: content_def without_none_def in_app_def py_defs)

text \<open>C2 (a builder leaves its arguments unchanged) fails on \<^verbatim>\<open>in_app\<close>: whenever the
  argument \<^verbatim>\<open>extra\<close> is a dictionary, the call returns and that dictionary has been
  given the key \<^verbatim>\<open>extra\<close>, bound to the dictionary itself.\<close>

theorem in_app_writes_into_extra:
  assumes "heap_get h a = Some (ODict d)"
  shows "\<exists>payload h'.
           in_app alert display_type expiry display actions interactive (PRef a) h
             = (Inr payload, h')
           \<and> heap_get h' a = Some (ODict (dict_set d ''extra'' (PRef a)))"
proof -
  have a: "a < length h" "a \<noteq> length h"
    using heap_get_less [OF assms] by simp_all
  show ?thesis
    using assms a
    by (simp add: in_app_def seq_defs pwhen_const setitem_dict heap_get_append heap_get_update)
qed

theorem in_app_writes_into_extra_witness:
  "\<exists>payload h'.
     in_app (PStr ''hi'') (PStr ''banner'') PNone PNone PNone PNone (PRef 0) [ODict []]
       = (Inr payload, h')
     \<and> heap_get h' 0 = Some (ODict [(''extra'', PRef 0)])"
  using in_app_writes_into_extra [of "[ODict []]" 0 "[]" "PStr ''hi''" "PStr ''banner''"
      PNone PNone PNone PNone]
  by (simp add: heap_get_def)

subsection \<open>wns\_payload\<close>

text \<open>What \<^verbatim>\<open>wns_payload\<close> computes: the test counts the arguments that are true, the
  document gets the arguments that are not None.\<close>

lemma wns_payload_result:
  "wns_payload alert toast tile badge h =
     (if length (filter (truthy h) [alert, toast, tile, badge]) \<noteq> 1 then (Inl ValueError, h)
      else (Inr (PRef (length h)),
            h @ [ODict (put_field (put_field (put_field (put_field [] ''alert'' alert)
                   ''toast'' toast) ''tile'' tile) ''badge'' badge)]))"
  by (simp add: wns_payload_def run_simps store_field_new raise_when ret_def
      del: pseq.simps filter.simps)

text \<open>C3 (exactly one of the four arguments supplied, or a ValueError) fails where a
  supplied argument is false in Python's sense: \<^verbatim>\<open>wns_payload(alert='Hello', toast={})\<close>
  returns a document with the two fields \<^verbatim>\<open>alert\<close> and \<^verbatim>\<open>toast\<close>, and
  \<^verbatim>\<open>wns_payload(badge={})\<close>, with one argument supplied, raises.\<close>

theorem wns_payload_counts_true_arguments:
  "wns_payload (PStr ''Hello'') (PRef 0) PNone PNone [ODict []] =
     (Inr (PRef 1), [ODict [], ODict [(''alert'', PStr ''Hello''), (''toast'', PRef 0)]])
   \<and> wns_payload PNone PNone PNone (PRef 0) [ODict []] = (Inl ValueError, [ODict []])"
  by (simp add: wns_payload_def py_defs)

subsection \<open>options\<close>

text \<open>What \<^verbatim>\<open>options\<close> computes: a string or an integer is returned as the only field;
  every other value, None among them, is a ValueError.\<close>

lemma options_result:
  "options expiry h =
     (if is_string_type expiry \<or> is_int expiry
      then (Inr (PRef (length h)), h @ [ODict [(''expiry'', expiry)]])
      else (Inl ValueError, h @ [ODict (put_field [] ''expiry'' expiry)]))"
  by (cases "expiry = PNone")
    (simp_all add: options_def run_simps pwhen_const setitem_new [where rest = "[]"]
      put_field_def ret_def raise_def)

text \<open>C4 (\<^verbatim>\<open>options()\<close> with the default \<^verbatim>\<open>expiry=None\<close> returns the empty document)
  fails: the type test is outside the \<^verbatim>\<open>if expiry is not None\<close> block, so the call
  raises a ValueError in every store.\<close>

theorem options_default_raises:
  "options PNone h = (Inl ValueError, h @ [ODict []])"
  by (simp add: options_def py_defs)

subsection \<open>device\_types\<close>

lemma device_type_check_string:
  "device_type_check (PStr t) h = (if known_tag t then (Inr (), h) else (Inl ValueError, h))"
  by (auto simp add: device_type_check_def known_tag_def startswith_iff in_strs_def pwhen_def
      raise_formatted_def raise_def)

lemma device_types_loop:
  "tys \<noteq> [PStr ''all''] \<Longrightarrow>
   device_types tys = pthen (for_each device_type_check tys) (new_obj (OList tys))"
  by (cases tys) (auto simp add: device_types_def)

lemma device_type_check_result:
  "device_type_check t h =
     (if known_device_type t then (Inr (), h) else (Inl (format_error t), h))"
proof (cases t)
  case (PStr s)
  then show ?thesis
    by (simp add: device_type_check_string known_device_type_def known_tag_def format_error_def)
next
  case (PTuple ts)
  then show ?thesis
    by (simp add: device_type_check_def known_device_type_def in_strs_def pwhen_def
        raise_formatted_def raise_def format_error_def)
qed (simp_all add: device_type_check_def known_device_type_def in_strs_def pwhen_def
        raise_formatted_def raise_def format_error_def)

lemma device_types_all_known:
  "\<forall>t\<in>set tys. known_device_type t \<Longrightarrow> for_each device_type_check tys h = (Inr (), h)"
  by (induction tys) (simp_all add: seq_defs device_type_check_result)

lemma device_types_first_unknown:
  "\<forall>x\<in>set pre. known_device_type x \<Longrightarrow> \<not> known_device_type t \<Longrightarrow>
   for_each device_type_check (pre @ t # post) h = (Inl (format_error t), h)"
  by (induction pre) (simp_all add: seq_defs device_type_check_result)

text \<open>C6 (every argument list with a tag other than the known ones raises a ValueError)
  fails on a tag that is a tuple: \<^verbatim>\<open>device_types(('ios', 'wns'))\<close> raises a TypeError,
  because \<^verbatim>\<open>"Invalid device type '%s'" % t\<close> takes the tuple as the argument list of the
  format. For every argument list, of values of any type: the single argument \<^verbatim>\<open>'all'\<close>
  gives back the string \<^verbatim>\<open>'all'\<close>; any other list in which each argument is one of the
  strings \<^verbatim>\<open>ios\<close>, \<^verbatim>\<open>android\<close>, \<^verbatim>\<open>amazon\<close>, \<^verbatim>\<open>wns\<close>, \<^verbatim>\<open>web\<close> or a string that begins
  with \<^verbatim>\<open>open::\<close> gives a new list of the same arguments in the same order; otherwise the
  first argument that is not one of these raises, allocating nothing: a ValueError, except
  a TypeError when that argument is a tuple that does not have exactly one item.\<close>

theorem device_types_result:
  "device_types [PStr ''all''] h = (Inr (PStr ''all''), h)
   \<and> (tys \<noteq> [PStr ''all''] \<and> (\<forall>t\<in>set tys. known_device_type t)
      \<longrightarrow> device_types tys h = (Inr (PRef (length h)), h @ [OList tys]))
   \<and> (tys = pre @ t # post \<and> tys \<noteq> [PStr ''all'']
        \<and> (\<forall>x\<in>set pre. known_device_type x) \<and> \<not> known_device_type t
      \<longrightarrow> device_types tys h =
            (Inl (if \<exists>ts. t = PTuple ts \<and> length ts \<noteq> 1 then TypeError else ValueError), h))
   \<and> device_types [PTuple [PStr ''ios'', PStr ''wns'']] [] = (Inl TypeError, [])"
proof (intro conjI impI)
  show "device_types [PStr ''all''] h = (Inr (PStr ''all''), h)"
    by (simp add: device_types_def ret_def)
next
  assume "tys \<noteq> [PStr ''all''] \<and> (\<forall>t\<in>set tys. known_device_type t)"
  then show "device_types tys h = (Inr (PRef (length h)), h @ [OList tys])"
    by (simp add: device_types_loop device_types_all_known seq_defs)
next
  assume a: "tys = pre @ t # post \<and> tys \<noteq> [PStr ''all'']
        \<and> (\<forall>x\<in>set pre. known_device_type x) \<and> \<not> known_device_type t"
  then have ne: "tys \<noteq> [PStr ''all'']"
    by (rule conjunct1 [OF conjunct2])
  have "device_types tys h = pthen (for_each device_type_check tys) (new_obj (OList tys)) h"
    by (simp only: device_types_loop [OF ne])
  also have "\<dots> = (Inl (format_error t), h)"
    using a by (simp add: pthen_apply device_types_first_unknown)
  finally show "device_types tys h =
            (Inl (if \<exists>ts. t = PTuple ts \<and> length ts \<noteq> 1 then TypeError else ValueError), h)"
    by (simp add: format_error_eq)
next
  show "device_types [PTuple [PStr ''ios'', PStr ''wns'']] [] = (Inl TypeError, [])"
    by (simp add: device_types_def device_type_check_def in_strs_def raise_formatted_def py_defs)
qed

theorem device_types_result_witness:
  "device_types [PStr ''ios'', PStr ''wns''] []
     = (Inr (PRef 0), [OList [PStr ''ios'', PStr ''wns'']])
   \<and> device_types [PStr ''open::sms''] [] = (Inr (PRef 0), [OList [PStr ''open::sms'']])
   \<and> device_types [PStr ''ios'', PStr ''symbian''] [] = (Inl ValueError, [])
   \<and> device_types [PStr ''ios'', PStr ''all''] [] = (Inl ValueError, [])
   \<and> device_types [PInt 5] [] = (Inl ValueError, [])
   \<and> device_types [PStr ''ios'', PNone] [] = (Inl ValueError, [])
   \<and> device_types [PTuple [PStr ''ios'']] [] = (Inl ValueError, [])
   \<and> device_types [PTuple []] [] = (Inl TypeError, [])"
  using device_types_result [of "[]" "[PStr ''ios'', PStr ''wns'']" "[]" PNone "[]"]
    device_types_result [of "[]" "[PStr ''open::sms'']" "[]" PNone "[]"]
    device_types_result [of "[]" "[PStr ''ios'', PStr ''symbian'']" "[PStr ''ios'']"
      "PStr ''symbian''" "[]"]
    device_types_result [of "[]" "[PStr ''ios'', PStr ''all'']" "[PStr ''ios'']"
      "PStr ''all''" "[]"]
    device_types_result [of "[]" "[PInt 5]" "[]" "PInt 5" "[]"]
    device_types_result [of "[]" "[PStr ''ios'', PNone]" "[PStr ''ios'']" PNone "[]"]
    device_types_result [of "[]" "[PTuple [PStr ''ios'']]" "[]" "PTuple [PStr ''ios'']" "[]"]
    device_types_result [of "[]" "[PTuple []]" "[]" "PTuple []" "[]"]
  by (simp add: known_device_type_def)

text \<open>C9: \<^verbatim>\<open>device_types()\<close> with no argument returns a new empty list and raises
  nothing.\<close>

theorem device_types_no_arguments:
  "device_types [] h = (Inr (PRef (length h)), h @ [OList []])"
  by (simp add: device_types_def seq_defs)

subsection \<open>campaigns\<close>

text \<open>C10: for a string \<^verbatim>\<open>s\<close> of 1 to 64 characters, \<^verbatim>\<open>campaigns(categories=s)\<close> returns
  a new dictionary whose only field \<^verbatim>\<open>categories\<close> refers to a list with the one item
  \<^verbatim>\<open>s\<close>: the list is the copy made of the list the string was wrapped into.\<close>

theorem campaigns_single_string:
  assumes "1 \<le> length s" and "length s \<le> 64"
  shows "campaigns (PStr s) h =
     (Inr (PRef (length h)),
      h @ [ODict [(''categories'', PRef (length h + 2))], OList [PStr s], OList [PStr s]])"
  using assms
  by (cases s)
    (simp_all add: campaigns_def category_check_def py_defs raise_formatted_def nth_append)

theorem campaigns_single_string_witness:
  "campaigns (PStr ''kittens'') [] =
     (Inr (PRef 0),
      [ODict [(''categories'', PRef 2)], OList [PStr ''kittens''], OList [PStr ''kittens'']])"
  using campaigns_single_string [of "''kittens''" "[]"]
  by simp


subsection \<open>campaigns: the checks on the categories\<close>















subsection \<open>notification\<close>

lemma put_field_Nil: "put_field d k v = [] \<longleftrightarrow> d = [] \<and> v = PNone"
  by (simp add: put_field_def)

lemma put_open_Nil: "put_open d entries = [] \<longleftrightarrow> d = [] \<and> entries = []"
  unfolding put_open_def
  by (induction entries arbitrary: d) (auto split: prod.splits)

lemma put_open_other:
  "platform \<notin> fst ` set entries \<Longrightarrow>
   map_of (put_open d entries) (''open::'' @ platform) = map_of d (''open::'' @ platform)"
  unfolding put_open_def
  by (induction entries arbitrary: d) (auto simp add: map_of_dict_set simp del: append.simps)

lemma put_open_entry:
  "distinct (map fst entries) \<Longrightarrow> (platform, overrides) \<in> set entries \<Longrightarrow>
   map_of (put_open d entries) (''open::'' @ platform) = Some overrides"
proof (induction entries arbitrary: d)
  case Nil
  then show ?case by simp
next
  case (Cons e entries)
  obtain p ov where e: "e = (p, ov)" by (cases e)
  have step: "put_open d ((p, ov) # entries) = put_open (dict_set d (''open::'' @ p) ov) entries"
    by (simp add: put_open_def)
  show ?case
  proof (cases "(platform, overrides) = e")
    case True
    then have "platform \<notin> fst ` set entries" using Cons.prems(1) e by auto
    then show ?thesis
      using True e by (simp add: step put_open_other map_of_dict_set del: append.simps)
  next
    case False
    then have "(platform, overrides) \<in> set entries" using Cons.prems(2) by simp
    moreover have "distinct (map fst entries)" using Cons.prems(1) by simp
    ultimately show ?thesis using Cons.IH by (simp add: step e)
  qed
qed

lemma store_open:
  "for_each (\<lambda>(platform, overrides). setitem (PRef (length h)) (''open::'' @ platform) overrides)
       entries (h @ ODict d # rest)
     = (Inr (), h @ ODict (put_open d entries) # rest)"
  unfolding put_open_def
  by (induction entries arbitrary: d) (auto simp add: seq_defs setitem_new simp del: append.simps)

lemma store_open_platform:
  assumes "open_platform = PNone \<and> entries = []
           \<or> (\<exists>a. open_platform = PRef a \<and> heap_get h a = Some (ODict entries))"
  shows "pwhen (\<lambda>_. open_platform \<noteq> PNone)
           (pbind (items open_platform)
              (for_each (\<lambda>(platform, overrides).
                 setitem (PRef (length h)) (''open::'' @ platform) overrides)))
           (h @ [ODict d])
         = (Inr (), h @ [ODict (put_open d entries)])"
  using assms
proof (elim disjE conjE exE)
  assume "open_platform = PNone" "entries = []"
  then show ?thesis by (simp add: pwhen_def put_open_def)
next
  fix a assume a: "open_platform = PRef a" "heap_get h a = Some (ODict entries)"
  then have "a \<noteq> length h" using heap_get_less by fastforce
  with a have "items open_platform (h @ [ODict d]) = (Inr entries, h @ [ODict d])"
    by (simp add: items_def heap_get_append)
  then show ?thesis using a(1) by (simp add: pwhen_def pbind_def store_open del: append.simps)
qed

lemma payload_truthy: "truthy (h @ [ODict d]) (PRef (length h)) \<longleftrightarrow> d \<noteq> []"
  by (simp add: truthy_def heap_get_append)

lemma empty_check:
  "pwhen (\<lambda>h. \<not> truthy h (PRef (length h0))) (raise ValueError) (h0 @ [ODict d])
     = (if d = [] then (Inl ValueError, h0 @ [ODict d]) else (Inr (), h0 @ [ODict d]))"
  by (simp add: pwhen_def payload_truthy raise_def)

lemma notification_result:
  assumes "open_platform = PNone \<and> entries = []
           \<or> (\<exists>a. open_platform = PRef a \<and> heap_get h a = Some (ODict entries))"
  shows "notification alert ios' android amazon web wns actions interactive in_app' open_platform h
    = (let d = put_open (put_field (put_field (put_field (put_field (put_field (put_field
                 (put_field (put_field (put_field [] ''alert'' alert) ''actions'' actions)
                 ''ios'' ios') ''android'' android) ''amazon'' amazon) ''web'' web) ''wns'' wns)
                 ''interactive'' interactive) ''in_app'' in_app') entries
       in if d = [] then (Inl ValueError, h @ [ODict d]) else (Inr (PRef (length h)), h @ [ODict d]))"
  by (simp add: notification_def run_simps store_field store_open_platform [OF assms]
      empty_check ret_def Let_def
      del: append.simps pseq.simps)

text \<open>C7: let \<^verbatim>\<open>open_platform\<close> be omitted or a dictionary (whose keys are distinct).
  When every other argument is omitted and \<^verbatim>\<open>open_platform\<close> has no entry, so that no field
  was stored, \<^verbatim>\<open>notification\<close> raises a ValueError; this is the case of \<^verbatim>\<open>notification()\<close>.
  In every other case it returns a new dictionary with at least one field, in which each
  entry of \<^verbatim>\<open>open_platform\<close> is found under \<^verbatim>\<open>'open::'\<close> followed by its name.\<close>

theorem notification_empty_or_fields:
  assumes "open_platform = PNone \<and> entries = []
           \<or> (\<exists>a. open_platform = PRef a \<and> heap_get h a = Some (ODict entries))"
    and "distinct (map fst entries)"
  shows "if alert = PNone \<and> ios' = PNone \<and> android = PNone \<and> amazon = PNone \<and> web = PNone
            \<and> wns = PNone \<and> actions = PNone \<and> interactive = PNone \<and> in_app' = PNone
            \<and> entries = []
         then notification alert ios' android amazon web wns actions interactive in_app'
                open_platform h = (Inl ValueError, h @ [ODict []])
         else \<exists>d. notification alert ios' android amazon web wns actions interactive in_app'
                open_platform h = (Inr (PRef (length h)), h @ [ODict d])
              \<and> d \<noteq> []
              \<and> (\<forall>(platform, overrides)\<in>set entries.
                    map_of d (''open::'' @ platform) = Some overrides)"
  using assms(2)
  by (auto simp add: notification_result [OF assms(1)] Let_def put_field_Nil put_open_Nil
      put_open_entry simp del: append.simps)

theorem notification_empty_or_fields_witness:
  "notification PNone PNone PNone PNone PNone PNone PNone PNone PNone PNone []
     = (Inl ValueError, [ODict []])
   \<and> (\<exists>d. notification (PStr ''Hello'') PNone PNone PNone PNone PNone PNone PNone PNone (PRef 0)
             [ODict [(''sms'', PStr ''hi'')]]
           = (Inr (PRef 1), [ODict [(''sms'', PStr ''hi'')], ODict d])
         \<and> d \<noteq> [] \<and> map_of d ''open::sms'' = Some (PStr ''hi''))"
  using notification_empty_or_fields [of PNone "[]" "[]" PNone PNone PNone PNone PNone PNone
      PNone PNone PNone]
    notification_empty_or_fields [of "PRef 0" "[(''sms'', PStr ''hi'')]"
      "[ODict [(''sms'', PStr ''hi'')]]" "PStr ''Hello''" PNone PNone PNone PNone PNone PNone
      PNone PNone]
  by (simp add: heap_get_def)

subsection \<open>ios\<close>

lemma triple_raise: "triple P (raise e) Q"
  by (simp add: triple_def raise_def)

lemma triple_pwhen: "triple P body P \<Longrightarrow> triple P (pwhen c body) P"
  by (auto simp add: triple_def pwhen_def split: if_splits)

lemma triple_pseq_Nil: "triple P (pseq []) P"
  by (simp add: triple_def ret_def)

lemma triple_pseq_Cons:
  "triple P s Q \<Longrightarrow> triple Q (pseq ss) R \<Longrightarrow> triple P (pseq (s # ss)) R"
  unfolding triple_def
  by (auto simp add: pthen_def pbind_def split: prod.splits sum.splits)

lemma triple_pseq_keep:
  "triple P s P \<Longrightarrow> triple P (pseq ss) P \<Longrightarrow> triple P (pseq (s # ss)) P"
  by (rule triple_pseq_Cons)

lemma triple_in_int_set:
  "(\<And>found. triple P (f found) Q) \<Longrightarrow> triple P (pbind (in_int_set v members) f) Q"
  unfolding triple_def
  by (auto simp add: pbind_def in_int_set_def split: if_splits)

lemma triple_setitem_other:
  "k \<notin> K \<Longrightarrow> triple (fields_are p K f) (setitem (PRef p) k v) (fields_are p K f)"
  unfolding triple_def fields_are_def
  by (auto simp add: setitem_def heap_get_update map_of_dict_set heap_get_less
      split: option.splits pyobj.splits)

lemmas keep_rules = triple_pseq_keep triple_pseq_Nil triple_pwhen triple_raise
  triple_in_int_set triple_setitem_other

lemma tripleD: "m h = (Inr (), h') \<Longrightarrow> triple P m Q \<Longrightarrow> P h \<Longrightarrow> Q h'"
  by (auto simp add: triple_def)

lemma fields_are_new: "fields_are (length h) K (\<lambda>_. None) (h @ [ODict []])"
  by (simp add: fields_are_def heap_get_append)

lemma triple_content_available:
  "triple (fields_are p {''content-available'', ''content_available''} (\<lambda>_. None))
     (pwhen (\<lambda>h. truthy h (PBool b)) (setitem (PRef p) ''content-available'' (PInt 1)))
     (fields_are p {''content-available'', ''content_available''}
        (\<lambda>k. if b \<and> k = ''content-available'' then Some (PInt 1) else None))"
  by (cases b)
    (auto simp add: triple_def pwhen_def truthy_def fields_are_def setitem_def heap_get_update
      map_of_dict_set heap_get_less split: option.splits pyobj.splits)

text \<open>C8: whenever \<^verbatim>\<open>ios\<close> returns, it returns a new dictionary in which the key
  \<^verbatim>\<open>content-available\<close> is bound to the integer 1 when \<^verbatim>\<open>content_available\<close> is
  \<^verbatim>\<open>True\<close> and is absent when it is \<^verbatim>\<open>False\<close> (the default); the key
  \<^verbatim>\<open>content_available\<close> is absent in both cases.\<close>

theorem ios_content_available:
  assumes "ios alert badge sound (PBool b) extra expiry interactive category title
             mutable_content subtitle media_attachment priority collapse_id h = (Inr r, h')"
  shows "\<exists>d. r = PRef (length h) \<and> heap_get h' (length h) = Some (ODict d)
           \<and> map_of d ''content-available'' = (if b then Some (PInt 1) else None)
           \<and> map_of d ''content_available'' = None"
proof -
  let ?P = "fields_are (length h) {''content-available'', ''content_available''} (\<lambda>_. None)"
  let ?Q = "fields_are (length h) {''content-available'', ''content_available''}
              (\<lambda>k. if b \<and> k = ''content-available'' then Some (PInt 1) else None)"
  have "r = PRef (length h) \<and> ?Q h'"
    using assms
    apply (simp only: ios_def pbind_new)
    apply (erule pthen_retE)
    apply (drule tripleD [where P = ?P and Q = ?Q])
      apply (rule triple_pseq_Cons [where Q = ?P], (intro keep_rules; simp))
      apply (rule triple_pseq_Cons [where Q = ?P], (intro keep_rules; simp))
      apply (rule triple_pseq_Cons [where Q = ?P], (intro keep_rules; simp))
      apply (rule triple_pseq_Cons [where Q = ?Q])
       apply (rule triple_content_available)
      apply (intro keep_rules; simp)
     apply (rule fields_are_new)
    apply simp
    done
  then show ?thesis
    by (auto simp add: fields_are_def)
qed

theorem ios_content_available_witness:
  "ios PNone PNone PNone (PBool True) PNone PNone PNone PNone PNone PNone PNone PNone PNone PNone []
     = (Inr (PRef 0), [ODict [(''content-available'', PInt 1)]])
   \<and> ios (PStr ''Hello'') PNone PNone (PBool False) PNone PNone PNone PNone PNone PNone PNone
       PNone PNone PNone [] = (Inr (PRef 0), [ODict [(''alert'', PStr ''Hello'')]])
   \<and> (\<exists>d. heap_get [ODict [(''content-available'', PInt 1)]] 0 = Some (ODict d)
           \<and> map_of d ''content-available'' = Some (PInt 1)
           \<and> map_of d ''content_available'' = None)
   \<and> (\<exists>d. heap_get [ODict [(''alert'', PStr ''Hello'')]] 0 = Some (ODict d)
           \<and> map_of d ''content-available'' = None
           \<and> map_of d ''content_available'' = None)"
proof -
  have t: "ios PNone PNone PNone (PBool True) PNone PNone PNone PNone PNone PNone PNone PNone
             PNone PNone []
           = (Inr (PRef 0), [ODict [(''content-available'', PInt 1)]])"
    by (simp add: ios_def py_defs)
  have f: "ios (PStr ''Hello'') PNone PNone (PBool False) PNone PNone PNone PNone PNone PNone
             PNone PNone PNone PNone [] = (Inr (PRef 0), [ODict [(''alert'', PStr ''Hello'')]])"
    by (simp add: ios_def py_defs)
  show ?thesis
    using t f ios_content_available [OF t] ios_content_available [OF f]
    by simp
qed

end
